theory Spec2Isabelle
  imports Main
begin

section \<open>Values, rows and exceptions\<close>

text \<open>
  The program is one Python function, \<open>analyze_database_schema\<close>, and a script entry
  point that prints its result as JSON. The function talks to a SQLite database
  through Python's \<open>sqlite3\<close> module, builds a dictionary and returns it; every
  exception raised on the way is turned into a dictionary with the single key
  \<open>error\<close>.

  A column value handed back by \<open>sqlite3\<close> is \<open>None\<close>, an \<open>int\<close> or a \<open>str\<close>
  (the catalog and the foreign-key pragma report no \<open>REAL\<close> and no \<open>BLOB\<close> column).
  A result row is a Python tuple of such values.
\<close>

datatype sql_value = SqlNull | SqlInt int | SqlText string

type_synonym row = "sql_value list"

text \<open>
  The values the function builds: dictionaries keep their insertion order, so a
  dictionary is an association list.
\<close>

datatype py_value =
    PyNone
  | PyInt int
  | PyStr string
  | PyList "py_value list"
  | PyDict "(string \<times> py_value) list"

text \<open>
  An exception is an instance of a subclass of \<open>Exception\<close>: the class name and the
  text \<open>str(e)\<close> gives. Signals that derive from \<open>BaseException\<close> only
  (\<open>KeyboardInterrupt\<close>, \<open>SystemExit\<close>) are raised by none of the operations below.
\<close>

datatype py_exception = PyException (exc_class: string) (exc_str: string)

fun to_py :: "sql_value \<Rightarrow> py_value" where
  "to_py SqlNull = PyNone"
| "to_py (SqlInt i) = PyInt i"
| "to_py (SqlText s) = PyStr s"

subsection \<open>Decimal text of integers\<close>

definition digit_char :: "nat \<Rightarrow> char" where
  "digit_char d = char_of (48 + d)"

function str_nat :: "nat \<Rightarrow> string" where
  "str_nat n = (if n < 10 then [digit_char n] else str_nat (n div 10) @ [digit_char (n mod 10)])"
  by pat_completeness auto
termination
  by (relation "measure id") auto

definition str_int :: "int \<Rightarrow> string" where
  "str_int i = (if i < 0 then CHR ''-'' # str_nat (nat (- i)) else str_nat (nat i))"

text \<open>What an f-string substitutes for \<open>{v}\<close>: \<open>format(v, '')\<close>, which is \<open>str(v)\<close>.\<close>

fun py_format :: "sql_value \<Rightarrow> string" where
  "py_format SqlNull = ''None''"
| "py_format (SqlInt i) = str_int i"
| "py_format (SqlText s) = s"

subsection \<open>Tuple operations that can raise\<close>

text \<open>\<open>t[i]\<close> for a literal index \<open>i \<ge> 0\<close>: \<open>IndexError\<close> beyond the end.\<close>

definition tuple_index :: "row \<Rightarrow> nat \<Rightarrow> py_exception + sql_value" where
  "tuple_index t i =
     (if i < length t then Inr (t ! i)
      else Inl (PyException ''IndexError'' ''tuple index out of range''))"

text \<open>\<open>a, b = t\<close>: \<open>ValueError\<close> unless the tuple has exactly two components.\<close>

fun unpack2 :: "row \<Rightarrow> py_exception + (sql_value \<times> sql_value)" where
  "unpack2 [a, b] = Inr (a, b)"
| "unpack2 t =
     Inl (PyException ''ValueError''
       (if length t < 2
        then ''not enough values to unpack (expected 2, got '' @ str_nat (length t) @ '')''
        else ''too many values to unpack (expected 2)''))"

subsection \<open>Dictionary access\<close>

fun dict_keys :: "py_value \<Rightarrow> string list" where
  "dict_keys (PyDict d) = map fst d"
| "dict_keys _ = []"

fun dict_get :: "py_value \<Rightarrow> string \<Rightarrow> py_value option" where
  "dict_get (PyDict d) k = map_of d k"
| "dict_get _ k = None"

section \<open>The \<open>sqlite3\<close> module, as the program uses it\<close>

text \<open>
  The program calls \<open>sqlite3.connect\<close>, \<open>Connection.cursor\<close>, \<open>Cursor.execute\<close>,
  \<open>Cursor.fetchall\<close> and \<open>Connection.close\<close>. They belong to Python's standard
  library, not to the repository; this section fixes what they do, as far as the two
  statements the program issues can tell.

  A database file is described by what SQLite answers: the rows of its schema catalog
  of kind \<open>table\<close>, in catalog order, and, for every text put between the parentheses
  of \<open>PRAGMA foreign_key_list(...)\<close>, the answer to that statement. The answer is a
  function of the text, whatever SQLite's parser makes of it: a text it rejects
  raises in \<open>execute\<close>, a text it accepts yields the rows of the table it denotes.
\<close>

datatype 'r answer =
    Execute_raises py_exception
  | Fetchall_raises py_exception
  | Returns "'r list"

text \<open>
  One row of \<open>PRAGMA foreign_key_list\<close>: the columns \<open>id\<close>, \<open>seq\<close>, \<open>table\<close>,
  \<open>from\<close>, \<open>to\<close>, \<open>on_update\<close>, \<open>on_delete\<close>, \<open>match\<close>. The column \<open>to\<close> is
  \<open>NULL\<close> when the constraint names no column of the referenced table.
\<close>

record fk_row =
  fk_id :: int
  fk_seq :: int
  fk_table :: string
  fk_from :: string
  fk_to :: "string option"
  fk_on_update :: string
  fk_on_delete :: string
  fk_match :: string

definition fk_tuple :: "fk_row \<Rightarrow> row" where
  "fk_tuple r =
     [SqlInt (fk_id r), SqlInt (fk_seq r), SqlText (fk_table r), SqlText (fk_from r),
      (case fk_to r of None \<Rightarrow> SqlNull | Some c \<Rightarrow> SqlText c),
      SqlText (fk_on_update r), SqlText (fk_on_delete r), SqlText (fk_match r)]"

record database =
  db_tables :: "(string \<times> string) list"
  db_foreign_key_list :: "string \<Rightarrow> fk_row answer"

definition catalog_row :: "string \<times> string \<Rightarrow> row" where
  "catalog_row t = [SqlText (fst t), SqlText (snd t)]"

text \<open>
  What a path refers to. \<open>Unopenable\<close> is a path SQLite can neither open nor create
  (a directory, a file in a missing or read-only directory). \<open>NotADatabase n\<close> is an
  existing file of \<open>n\<close> bytes whose content is not a SQLite database, a text file for
  instance. A path the file system does not map is a nonexistent file in a directory
  where SQLite can create it.
\<close>

datatype fs_entry = Unopenable | NotADatabase nat | Database database

datatype call = Connect string | Cursor | Execute string | Fetchall | Close

text \<open>
  The state the library works on: the file system, the connections opened so far
  (path, still open), the cursors (their connection and the result that waits to be
  fetched), and the history of the calls made, each with whether it returned.
  \<open>fresh_pragma\<close> is how SQLite answers the pragma on a database without tables.
\<close>

record world =
  files :: "string \<Rightarrow> fs_entry option"
  fresh_pragma :: "string \<Rightarrow> fk_row answer"
  conns :: "(string \<times> bool) list"
  cursors :: "(nat \<times> (py_exception + row list)) list"
  log :: "(call \<times> bool) list"

type_synonym 'a io = "world \<Rightarrow> (py_exception + 'a) \<times> world"

definition logged :: "call \<Rightarrow> (py_exception + 'a) \<times> world \<Rightarrow> (py_exception + 'a) \<times> world" where
  "logged c r = (fst r, (snd r)\<lparr>log := log (snd r) @ [(c, \<not> isl (fst r))]\<rparr>)"

definition catalog_query :: string where
  "catalog_query = ''SELECT name, sql FROM sqlite_master WHERE type='' @ [CHR 0x27] @ ''table'' @ [CHR 0x27]"

definition pragma_prefix :: string where
  "pragma_prefix = ''PRAGMA foreign_key_list(''"

definition pragma_argument :: "string \<Rightarrow> string option" where
  "pragma_argument sql =
     (if length pragma_prefix < length sql \<and> take (length pragma_prefix) sql = pragma_prefix
         \<and> last sql = CHR '')''
      then Some (butlast (drop (length pragma_prefix) sql)) else None)"

definition statement_answer :: "database \<Rightarrow> string \<Rightarrow> row answer" where
  "statement_answer db sql =
     (if sql = catalog_query then Returns (map catalog_row (db_tables db))
      else case pragma_argument sql of
          Some arg \<Rightarrow> map_answer fk_tuple (db_foreign_key_list db arg)
        | None \<Rightarrow> Execute_raises (PyException ''OperationalError'' ''statement outside the model''))"

definition closed_error :: py_exception where
  "closed_error = PyException ''ProgrammingError'' ''Cannot operate on a closed database.''"

definition is_open :: "world \<Rightarrow> nat \<Rightarrow> bool" where
  "is_open w c = (c < length (conns w) \<and> snd (conns w ! c))"

definition set_pending :: "nat \<Rightarrow> py_exception + row list \<Rightarrow> world \<Rightarrow> world" where
  "set_pending k p w = w\<lparr>cursors := (cursors w)[k := (fst (cursors w ! k), p)]\<rparr>"

text \<open>
  \<open>sqlite3.connect(path)\<close> opens the file for reading and writing and creates it
  if it does not exist (the flags \<open>SQLITE_OPEN_READWRITE | SQLITE_OPEN_CREATE\<close> of
  the C library); a new file is an empty database. It does not read the content:
  what the file holds is found out by the first statement executed. Where the file
  can be neither opened nor created, \<open>connect\<close> itself raises \<open>OperationalError\<close>.
\<close>

definition sqlite3_connect :: "string \<Rightarrow> nat io" where
  "sqlite3_connect path w = logged (Connect path)
     (case files w path of
        Some Unopenable \<Rightarrow>
          (Inl (PyException ''OperationalError'' ''unable to open database file''), w)
      | Some _ \<Rightarrow> (Inr (length (conns w)), w\<lparr>conns := conns w @ [(path, True)]\<rparr>)
      | None \<Rightarrow>
          (Inr (length (conns w)),
           w\<lparr>files := (files w)(path \<mapsto>
                 Database \<lparr>db_tables = [], db_foreign_key_list = fresh_pragma w\<rparr>),
              conns := conns w @ [(path, True)]\<rparr>))"

text \<open>
  What SQLite finds when it reads the file behind a connection. It looks at the
  content only when the file has two bytes or more: an existing file of no byte or of
  one byte, whatever the byte, is read as a database without tables, and so the
  statements on it succeed. A longer file whose content is not a database makes
  every statement raise \<open>DatabaseError\<close>.
\<close>

definition read_file :: "(string \<Rightarrow> fk_row answer) \<Rightarrow> fs_entry option \<Rightarrow> py_exception + database" where
  "read_file fresh entry =
     (case entry of
        Some (Database db) \<Rightarrow> Inr db
      | Some (NotADatabase n) \<Rightarrow>
          if n \<le> 1 then Inr \<lparr>db_tables = [], db_foreign_key_list = fresh\<rparr>
          else Inl (PyException ''DatabaseError'' ''file is not a database'')
      | _ \<Rightarrow> Inl (PyException ''OperationalError'' ''unable to open database file''))"

definition conn_cursor :: "nat \<Rightarrow> nat io" where
  "conn_cursor c w = logged Cursor
     (if is_open w c
      then (Inr (length (cursors w)), w\<lparr>cursors := cursors w @ [(c, Inr [])]\<rparr>)
      else (Inl closed_error, w))"

definition cursor_execute :: "nat \<Rightarrow> string \<Rightarrow> unit io" where
  "cursor_execute k sql w = logged (Execute sql)
     (if k < length (cursors w) \<and> is_open w (fst (cursors w ! k))
      then (case read_file (fresh_pragma w) (files w (fst (conns w ! fst (cursors w ! k)))) of
          Inl e \<Rightarrow> (Inl e, w)
        | Inr db \<Rightarrow>
            (case statement_answer db sql of
               Execute_raises e \<Rightarrow> (Inl e, set_pending k (Inr []) w)
             | Fetchall_raises e \<Rightarrow> (Inr (), set_pending k (Inl e) w)
             | Returns rows \<Rightarrow> (Inr (), set_pending k (Inr rows) w)))
      else (Inl closed_error, w))"

definition cursor_fetchall :: "nat \<Rightarrow> (row list) io" where
  "cursor_fetchall k w = logged Fetchall
     (if k < length (cursors w) \<and> is_open w (fst (cursors w ! k))
      then (case snd (cursors w ! k) of
          Inl e \<Rightarrow> (Inl e, set_pending k (Inr []) w)
        | Inr rows \<Rightarrow> (Inr rows, set_pending k (Inr []) w))
      else (Inl closed_error, w))"

definition conn_close :: "nat \<Rightarrow> unit io" where
  "conn_close c w = logged Close
     (Inr (), if c < length (conns w)
              then w\<lparr>conns := (conns w)[c := (fst (conns w ! c), False)]\<rparr> else w)"

section \<open>The program\<close>

text \<open>
  Statements run in sequence; an exception ends the sequence and is handed on with
  the state reached.
\<close>

definition bind_io :: "'a io \<Rightarrow> ('a \<Rightarrow> 'b io) \<Rightarrow> 'b io" where
  "bind_io m f w = (case m w of (Inl e, w') \<Rightarrow> (Inl e, w') | (Inr a, w') \<Rightarrow> f a w')"

definition lift_io :: "py_exception + 'a \<Rightarrow> 'a io" where
  "lift_io r w = (r, w)"

text \<open>
  The dictionary appended for one row \<open>fk\<close> of the pragma: \<open>fk[3]\<close>, \<open>fk[2]\<close> and
  \<open>fk[4]\<close> are evaluated in this order, each raising \<open>IndexError\<close> on a short row.
\<close>

definition fk_entry :: "sql_value \<Rightarrow> row \<Rightarrow> py_exception + py_value" where
  "fk_entry table_name fk =
     (case tuple_index fk 3 of Inl e \<Rightarrow> Inl e | Inr from_column \<Rightarrow>
       (case tuple_index fk 2 of Inl e \<Rightarrow> Inl e | Inr to_table \<Rightarrow>
         (case tuple_index fk 4 of Inl e \<Rightarrow> Inl e | Inr to_column \<Rightarrow>
            Inr (PyDict [(''table'', to_py table_name),
                         (''from_column'', to_py from_column),
                         (''to_table'', to_py to_table),
                         (''to_column'', to_py to_column)]))))"

text \<open>The inner loop \<open>for fk in fk_info: foreign_keys.append({...})\<close>.\<close>

fun append_entries :: "sql_value \<Rightarrow> row list \<Rightarrow> py_value list \<Rightarrow> py_exception + py_value list" where
  "append_entries table_name [] foreign_keys = Inr foreign_keys"
| "append_entries table_name (fk # fk_info) foreign_keys =
     (case fk_entry table_name fk of
        Inl e \<Rightarrow> Inl e
      | Inr d \<Rightarrow> append_entries table_name fk_info (foreign_keys @ [d]))"

text \<open>
  The outer loop \<open>for table_name, table_sql in tables\<close>: the table name is put into
  the statement text as it is, neither quoted nor passed as a parameter.
\<close>

fun collect_foreign_keys :: "nat \<Rightarrow> row list \<Rightarrow> py_value list \<Rightarrow> (py_value list) io" where
  "collect_foreign_keys cursor [] foreign_keys = lift_io (Inr foreign_keys)"
| "collect_foreign_keys cursor (t # tables) foreign_keys =
     bind_io (lift_io (unpack2 t)) (\<lambda>(table_name, table_sql).
     bind_io (cursor_execute cursor (pragma_prefix @ py_format table_name @ '')'')) (\<lambda>_.
     bind_io (cursor_fetchall cursor) (\<lambda>fk_info.
     bind_io (lift_io (if fk_info \<noteq> [] then append_entries table_name fk_info foreign_keys
                       else Inr foreign_keys)) (\<lambda>foreign_keys'.
     collect_foreign_keys cursor tables foreign_keys'))))"

text \<open>The body of the \<open>try\<close> block.\<close>

definition analyze_body :: "string \<Rightarrow> py_value io" where
  "analyze_body db_path =
     bind_io (sqlite3_connect db_path) (\<lambda>conn.
     bind_io (conn_cursor conn) (\<lambda>cursor.
     bind_io (cursor_execute cursor catalog_query) (\<lambda>_.
     bind_io (cursor_fetchall cursor) (\<lambda>tables.
     bind_io (collect_foreign_keys cursor tables []) (\<lambda>foreign_keys.
     bind_io (conn_close conn) (\<lambda>_.
     lift_io (Inr (PyDict [(''foreign_keys'', PyList foreign_keys),
                           (''table_count'', PyInt (int (length tables))),
                           (''found_fk_count'', PyInt (int (length foreign_keys)))]))))))))"

text \<open>
  \<open>try: ... except Exception as e: return {'error': str(e)}\<close>. The result is a sum so
  that an exception leaving the function would be a value \<open>Inl\<close>.
\<close>

definition analyze_database_schema :: "string \<Rightarrow> py_value io" where
  "analyze_database_schema db_path w =
     (case analyze_body db_path w of
        (Inr result, w') \<Rightarrow> (Inr result, w')
      | (Inl e, w') \<Rightarrow> (Inr (PyDict [(''error'', PyStr (exc_str e))]), w'))"

text \<open>
  The script: the path is the constant \<open>database.db\<close>, and the result goes to standard
  output through \<open>json.dumps(result, indent=2)\<close>. The serialiser is a function of
  the standard library; it is a parameter here. \<open>print\<close> adds a newline.
\<close>

definition main :: "(py_value \<Rightarrow> string) \<Rightarrow> world \<Rightarrow> (py_exception + string) \<times> world" where
  "main json_dumps w =
     (case analyze_database_schema ''database.db'' w of
        (Inl e, w') \<Rightarrow> (Inl e, w')
      | (Inr result, w') \<Rightarrow> (Inr (json_dumps result @ [CHR 0x0A]), w'))"

section \<open>Notions used to state the properties\<close>

text \<open>
  The \<open>ForeignKeyRef\<close> of the data model for one row of the pragma, attributed to the
  table \<open>t\<close> the pragma was asked about.
\<close>

definition foreign_key_ref :: "string \<Rightarrow> fk_row \<Rightarrow> py_value" where
  "foreign_key_ref t r =
     PyDict [(''table'', PyStr t), (''from_column'', PyStr (fk_from r)),
             (''to_table'', PyStr (fk_table r)),
             (''to_column'', (case fk_to r of None \<Rightarrow> PyNone | Some c \<Rightarrow> PyStr c))]"

fun succeeds :: "'r answer \<Rightarrow> bool" where
  "succeeds (Returns rows) = True"
| "succeeds _ = False"

fun returned :: "'r answer \<Rightarrow> 'r list" where
  "returned (Returns rows) = rows"
| "returned _ = []"


text \<open>The success value for the collected entries and the number of tables.\<close>

definition summary :: "py_value list \<Rightarrow> nat \<Rightarrow> py_value" where
  "summary fks n = PyDict [(''foreign_keys'', PyList fks), (''table_count'', PyInt (int n)),
                           (''found_fk_count'', PyInt (int (length fks)))]"

subsection \<open>Auxiliary notions for the proofs\<close>

text \<open>\<open>execute\<close> followed by \<open>fetchall\<close>, and the program after \<open>connect\<close> has returned.\<close>

definition query :: "nat \<Rightarrow> string \<Rightarrow> (row list) io" where
  "query cur sql = bind_io (cursor_execute cur sql) (\<lambda>_. cursor_fetchall cur)"

definition analyze_rest :: "nat \<Rightarrow> py_value io" where
  "analyze_rest conn =
     bind_io (conn_cursor conn) (\<lambda>cursor.
     bind_io (query cursor catalog_query) (\<lambda>tables.
     bind_io (collect_foreign_keys cursor tables []) (\<lambda>foreign_keys.
     bind_io (conn_close conn) (\<lambda>_.
     lift_io (Inr (summary foreign_keys (length tables)))))))"

text \<open>
  The cursor \<open>cur\<close> belongs to the open connection \<open>conn\<close> on the file at path \<open>p\<close>,
  which SQLite reads as the database \<open>db\<close>: the invariant of the loop.
\<close>

definition ready :: "world \<Rightarrow> nat \<Rightarrow> nat \<Rightarrow> string \<Rightarrow> database \<Rightarrow> bool" where
  "ready w conn cur p db =
     (cur < length (cursors w) \<and> fst (cursors w ! cur) = conn \<and> conn < length (conns w)
      \<and> conns w ! conn = (p, True) \<and> read_file (fresh_pragma w) (files w p) = Inr db)"

fun answer_result :: "'r answer \<Rightarrow> py_exception + 'r list" where
  "answer_result (Execute_raises e) = Inl e"
| "answer_result (Fetchall_raises e) = Inl e"
| "answer_result (Returns rows) = Inr rows"

text \<open>What the outer loop computes, read off the database alone.\<close>

fun pure_collect :: "database \<Rightarrow> (string \<times> string) list \<Rightarrow> py_value list \<Rightarrow> py_exception + py_value list" where
  "pure_collect db [] acc = Inr acc"
| "pure_collect db (t # ts) acc =
     (case answer_result (db_foreign_key_list db (fst t)) of
        Inl e \<Rightarrow> Inl e
      | Inr rows \<Rightarrow> pure_collect db ts (acc @ map (foreign_key_ref (fst t)) rows))"


section \<open>Example databases\<close>

text \<open>
  A machine on which no connection has been opened yet. The answers an example
  database gives for texts that are not names of its catalog are immaterial: the
  program asks for those names only.
\<close>

definition boot :: "(string \<Rightarrow> fs_entry option) \<Rightarrow> world" where
  "boot fs = \<lparr>files = fs, fresh_pragma = (\<lambda>_. Returns []), conns = [], cursors = [], log = []\<rparr>"

text \<open>
  The example of the specification: \<open>orders.customer_id\<close> references
  \<open>customers(id)\<close>.
\<close>

definition shop_db :: database where
  "shop_db =
     \<lparr>db_tables =
        [(''customers'', ''CREATE TABLE customers (id INTEGER PRIMARY KEY, name TEXT)''),
         (''orders'', ''CREATE TABLE orders (id INTEGER PRIMARY KEY, customer_id INTEGER REFERENCES customers(id))'')],
      db_foreign_key_list = (\<lambda>arg.
        if arg = ''orders''
        then Returns [\<lparr>fk_id = 0, fk_seq = 0, fk_table = ''customers'', fk_from = ''customer_id'',
                       fk_to = Some ''id'', fk_on_update = ''NO ACTION'',
                       fk_on_delete = ''NO ACTION'', fk_match = ''NONE''\<rparr>]
        else Returns [])\<rparr>"

definition shop_world :: world where
  "shop_world = boot (Map.empty(''database.db'' \<mapsto> Database shop_db))"

text \<open>Two tables, no foreign key.\<close>

definition notes_db :: database where
  "notes_db =
     \<lparr>db_tables = [(''users'', ''CREATE TABLE users (id INTEGER PRIMARY KEY)''),
                   (''notes'', ''CREATE TABLE notes (body TEXT)'')],
      db_foreign_key_list = (\<lambda>arg. Returns [])\<rparr>"

definition notes_world :: world where
  "notes_world = boot (Map.empty(''database.db'' \<mapsto> Database notes_db))"

text \<open>
  One table, created as \<open>CREATE TABLE "my table" (x)\<close>, no foreign key. SQLite reads
  \<open>PRAGMA foreign_key_list(my table)\<close> as far as \<open>my\<close> and rejects the next token.
\<close>

definition spaced_db :: database where
  "spaced_db =
     \<lparr>db_tables = [(''my table'', ''CREATE TABLE \"my table\" (x)'')],
      db_foreign_key_list = (\<lambda>arg.
        if arg = ''my table''
        then Execute_raises (PyException ''OperationalError'' ''near \"table\": syntax error'')
        else Returns [])\<rparr>"

definition spaced_world :: world where
  "spaced_world = boot (Map.empty(''database.db'' \<mapsto> Database spaced_db))"

text \<open>
  A plain table followed by one created as \<open>CREATE TABLE "a)b" (x)\<close>: the statement
  text becomes \<open>PRAGMA foreign_key_list(a)b)\<close>, which SQLite rejects after the first
  closing parenthesis.
\<close>

definition paren_db :: database where
  "paren_db =
     \<lparr>db_tables = [(''plain'', ''CREATE TABLE plain (x)''),
                   (''a)b'', ''CREATE TABLE \"a)b\" (x)'')],
      db_foreign_key_list = (\<lambda>arg.
        if arg = ''a)b''
        then Execute_raises (PyException ''OperationalError'' ''near \"b\": syntax error'')
        else Returns [])\<rparr>"

definition paren_world :: world where
  "paren_world = boot (Map.empty(''database.db'' \<mapsto> Database paren_db))"

text \<open>
  A text file of 23 bytes named \<open>database.db\<close>; a text file of one byte; a path that
  cannot be opened; and a directory without that file.
\<close>

definition text_file_world :: world where
  "text_file_world = boot (Map.empty(''database.db'' \<mapsto> NotADatabase 23))"




section \<open>Facts about the model\<close>

lemma fk_entry_tuple: "fk_entry (SqlText n) (fk_tuple r) = Inr (foreign_key_ref n r)"
  by (simp add: fk_entry_def fk_tuple_def tuple_index_def foreign_key_ref_def split: option.split)

lemma append_entries_tuples:
  "append_entries (SqlText n) (map fk_tuple rows) acc = Inr (acc @ map (foreign_key_ref n) rows)"
  by (induction rows arbitrary: acc) (simp_all add: fk_entry_tuple)

lemma pragma_argument_text: "pragma_argument (pragma_prefix @ n @ '')'') = Some n"
  by (simp add: pragma_argument_def)

lemma pragma_not_catalog: "pragma_prefix @ n @ '')'' \<noteq> catalog_query"
  by (simp add: pragma_prefix_def catalog_query_def)

lemma statement_answer_pragma:
  "statement_answer db (pragma_prefix @ n @ '')'') = map_answer fk_tuple (db_foreign_key_list db n)"
  by (simp add: statement_answer_def pragma_argument_text pragma_not_catalog)

lemma statement_answer_catalog:
  "statement_answer db catalog_query = Returns (map catalog_row (db_tables db))"
  by (simp add: statement_answer_def)

lemma query_ready:
  assumes "ready w conn cur p db"
  shows "\<exists>w'. query cur sql w
                 = (answer_result (statement_answer db sql), w')
              \<and> ready w' conn cur p db \<and> files w' = files w \<and> conns w' = conns w
              \<and> fresh_pragma w' = fresh_pragma w"
  using assms
  by (cases "statement_answer db sql")
     (auto simp: query_def ready_def bind_io_def cursor_execute_def cursor_fetchall_def logged_def
        is_open_def set_pending_def)


lemma answer_result_map:
  "answer_result (map_answer f a) = map_sum id (map f) (answer_result a)"
  by (cases a) simp_all

lemma collect_step:
  "collect_foreign_keys cur (catalog_row t # rows) acc =
     bind_io (query cur (pragma_prefix @ fst t @ '')''))
       (\<lambda>fk_info. bind_io (lift_io (if fk_info \<noteq> [] then append_entries (SqlText (fst t)) fk_info acc
                       else Inr acc)) (\<lambda>acc'. collect_foreign_keys cur rows acc'))"
  by (rule ext) (simp add: query_def catalog_row_def bind_io_def lift_io_def split: prod.splits sum.splits)

lemma bind_io_apply:
  "m w = (r, w1) \<Longrightarrow> bind_io m f w = (case r of Inl e \<Rightarrow> (Inl e, w1) | Inr a \<Rightarrow> f a w1)"
  by (simp add: bind_io_def)

lemma collect_ready:
  assumes "ready w conn cur p db"
  shows "\<exists>w'. collect_foreign_keys cur (map catalog_row ts) acc w = (pure_collect db ts acc, w')
              \<and> ready w' conn cur p db \<and> files w' = files w \<and> conns w' = conns w
              \<and> fresh_pragma w' = fresh_pragma w"
  using assms
proof (induction ts arbitrary: acc w)
  case Nil
  then show ?case by (simp add: lift_io_def)
next
  case (Cons t ts)
  let ?sql = "pragma_prefix @ fst t @ '')''"
  from query_ready[OF Cons.prems, of ?sql] obtain w1 where
    q: "query cur ?sql w
          = (answer_result (statement_answer db ?sql), w1)"
    and r1: "ready w1 conn cur p db" and f1: "files w1 = files w" and c1: "conns w1 = conns w"
    and p1: "fresh_pragma w1 = fresh_pragma w"
    by blast
  have step: "collect_foreign_keys cur (map catalog_row (t # ts)) acc w =
      (case answer_result (statement_answer db ?sql) of
         Inl e \<Rightarrow> (Inl e, w1)
       | Inr fk_info \<Rightarrow>
           bind_io (lift_io (if fk_info \<noteq> [] then append_entries (SqlText (fst t)) fk_info acc
                             else Inr acc))
             (\<lambda>acc'. collect_foreign_keys cur (map catalog_row ts) acc') w1)"
    by (simp only: list.map collect_step bind_io_apply[where m = "query cur ?sql" and w = w, OF q])
  show ?case
  proof (cases "answer_result (db_foreign_key_list db (fst t))")
    case (Inl e)
    then have "collect_foreign_keys cur (map catalog_row (t # ts)) acc w = (Inl e, w1)"
      by (simp only: step statement_answer_pragma answer_result_map) simp
    with Inl r1 f1 c1 p1 show ?thesis by simp
  next
    case (Inr rows)
    let ?acc = "acc @ map (foreign_key_ref (fst t)) rows"
    have "(if map fk_tuple rows \<noteq> [] then append_entries (SqlText (fst t)) (map fk_tuple rows) acc
           else Inr acc) = Inr ?acc"
      by (simp add: append_entries_tuples)
    with Inr have "collect_foreign_keys cur (map catalog_row (t # ts)) acc w
                 = collect_foreign_keys cur (map catalog_row ts) ?acc w1"
      by (simp only: step statement_answer_pragma answer_result_map)
         (simp add: bind_io_def lift_io_def)
    moreover from Cons.IH[OF r1, of ?acc] obtain w2 where
      "collect_foreign_keys cur (map catalog_row ts) ?acc w1 = (pure_collect db ts ?acc, w2)"
      "ready w2 conn cur p db" "files w2 = files w1" "conns w2 = conns w1"
      "fresh_pragma w2 = fresh_pragma w1"
      by blast
    ultimately show ?thesis using Inr f1 c1 p1 by simp
  qed
qed


lemma body_unfold: "analyze_body p = bind_io (sqlite3_connect p) analyze_rest"
  by (rule ext)
     (simp add: analyze_body_def analyze_rest_def query_def summary_def bind_io_def
        split: prod.splits sum.splits)

lemma rest_database:
  assumes "conn < length (conns w)" and "conns w ! conn = (p, True)"
    and "read_file (fresh_pragma w) (files w p) = Inr db"
  shows "\<exists>w'. analyze_rest conn w =
           (map_sum id (\<lambda>fks. summary fks (length (db_tables db)))
              (pure_collect db (db_tables db) []), w')
         \<and> files w' = files w \<and> fresh_pragma w' = fresh_pragma w
         \<and> conns w' = (conns w)[conn := (p, isl (pure_collect db (db_tables db) []))]"
proof -
  define cur where "cur = length (cursors w)"
  define w2 where "w2 = w\<lparr>cursors := cursors w @ [(conn, Inr [])], log := log w @ [(Cursor, True)]\<rparr>"
  have k: "conn_cursor conn w = (Inr cur, w2)"
    using assms by (simp add: conn_cursor_def is_open_def logged_def cur_def w2_def)
  have r2: "ready w2 conn cur p db"
    using assms by (simp add: ready_def w2_def cur_def)
  from query_ready[OF r2, of catalog_query] obtain w3 where
    q: "query cur catalog_query w2 = (Inr (map catalog_row (db_tables db)), w3)"
    and r3: "ready w3 conn cur p db" and e3: "files w3 = files w2" "conns w3 = conns w2"
      "fresh_pragma w3 = fresh_pragma w2"
    by (auto simp: statement_answer_catalog)
  from collect_ready[OF r3, of "db_tables db" "[]"] obtain w4 where
    c: "collect_foreign_keys cur (map catalog_row (db_tables db)) [] w3
          = (pure_collect db (db_tables db) [], w4)"
    and r4: "ready w4 conn cur p db" and e4: "files w4 = files w3" "conns w4 = conns w3"
      "fresh_pragma w4 = fresh_pragma w3"
    by blast
  have same: "files w4 = files w" "conns w4 = conns w" "fresh_pragma w4 = fresh_pragma w"
    using e3 e4 by (simp_all add: w2_def)
  show ?thesis
  proof (cases "pure_collect db (db_tables db) []")
    case (Inl e)
    then have "analyze_rest conn w = (Inl e, w4)"
      by (simp add: analyze_rest_def bind_io_def k q c)
    moreover have "(conns w)[conn := (p, True)] = conns w"
      using assms by (metis list_update_id)
    ultimately show ?thesis using Inl same by simp
  next
    case (Inr fks)
    then have "analyze_rest conn w =
        (Inr (summary fks (length (db_tables db))),
         w4\<lparr>conns := (conns w4)[conn := (fst (conns w4 ! conn), False)],
            log := log w4 @ [(Close, True)]\<rparr>)"
      using assms same
      by (simp add: analyze_rest_def bind_io_def k q c conn_close_def logged_def lift_io_def)
    then show ?thesis using Inr same assms by simp
  qed
qed

lemma rest_not_database:
  assumes "conn < length (conns w)" and "conns w ! conn = (p, True)"
    and "read_file (fresh_pragma w) (files w p) = Inl e"
  shows "\<exists>w'. analyze_rest conn w = (Inl e, w')
         \<and> files w' = files w \<and> fresh_pragma w' = fresh_pragma w \<and> conns w' = conns w"
  using assms
  by (simp add: analyze_rest_def query_def bind_io_def conn_cursor_def is_open_def logged_def
      cursor_execute_def)


lemma analyze_database:
  assumes "files w p = Some (Database db)"
  shows "\<exists>w'. analyze_database_schema p w =
           (Inr (case pure_collect db (db_tables db) [] of
                   Inl e \<Rightarrow> PyDict [(''error'', PyStr (exc_str e))]
                 | Inr fks \<Rightarrow> summary fks (length (db_tables db))), w')
         \<and> files w' = files w \<and> fresh_pragma w' = fresh_pragma w
         \<and> conns w' = conns w @ [(p, isl (pure_collect db (db_tables db) []))]"
proof -
  define w1 where "w1 = w\<lparr>conns := conns w @ [(p, True)], log := log w @ [(Connect p, True)]\<rparr>"
  have c: "sqlite3_connect p w = (Inr (length (conns w)), w1)"
    using assms by (simp add: sqlite3_connect_def logged_def w1_def)
  have "length (conns w) < length (conns w1)" "conns w1 ! length (conns w) = (p, True)"
    "read_file (fresh_pragma w1) (files w1 p) = Inr db"
    using assms by (simp_all add: w1_def read_file_def)
  from rest_database[OF this] obtain w' where
    "analyze_rest (length (conns w)) w1 =
       (map_sum id (\<lambda>fks. summary fks (length (db_tables db))) (pure_collect db (db_tables db) []), w')"
    "files w' = files w1" "fresh_pragma w' = fresh_pragma w1"
    "conns w' = (conns w1)[length (conns w) := (p, isl (pure_collect db (db_tables db) []))]"
    by blast
  then show ?thesis
    by (cases "pure_collect db (db_tables db) []")
       (simp_all add: analyze_database_schema_def body_unfold bind_io_def c w1_def)
qed

lemma analyze_missing:
  assumes "files w p = None"
  shows "\<exists>w'. analyze_database_schema p w = (Inr (summary [] 0), w')
         \<and> files w' = (files w)(p \<mapsto> Database \<lparr>db_tables = [], db_foreign_key_list = fresh_pragma w\<rparr>)
         \<and> fresh_pragma w' = fresh_pragma w
         \<and> conns w' = conns w @ [(p, False)]"
proof -
  let ?db = "\<lparr>db_tables = [], db_foreign_key_list = fresh_pragma w\<rparr>"
  define w1 where "w1 = w\<lparr>files := (files w)(p \<mapsto> Database ?db),
     conns := conns w @ [(p, True)], log := log w @ [(Connect p, True)]\<rparr>"
  have c: "sqlite3_connect p w = (Inr (length (conns w)), w1)"
    using assms by (simp add: sqlite3_connect_def logged_def w1_def)
  have "length (conns w) < length (conns w1)" "conns w1 ! length (conns w) = (p, True)"
    "read_file (fresh_pragma w1) (files w1 p) = Inr ?db"
    by (simp_all add: w1_def read_file_def)
  from rest_database[OF this] obtain w' where
    "analyze_rest (length (conns w)) w1 = (Inr (summary [] 0), w')"
    "files w' = files w1" "fresh_pragma w' = fresh_pragma w1"
    "conns w' = (conns w1)[length (conns w) := (p, False)]"
    by auto
  then show ?thesis
    by (simp add: analyze_database_schema_def body_unfold bind_io_def c w1_def)
qed

lemma analyze_short_file:
  assumes "files w p = Some (NotADatabase n)" and "n \<le> 1"
  shows "\<exists>w'. analyze_database_schema p w = (Inr (summary [] 0), w')
         \<and> files w' = files w \<and> fresh_pragma w' = fresh_pragma w
         \<and> conns w' = conns w @ [(p, False)]"
proof -
  let ?db = "\<lparr>db_tables = [], db_foreign_key_list = fresh_pragma w\<rparr>"
  define w1 where "w1 = w\<lparr>conns := conns w @ [(p, True)], log := log w @ [(Connect p, True)]\<rparr>"
  have c: "sqlite3_connect p w = (Inr (length (conns w)), w1)"
    using assms by (simp add: sqlite3_connect_def logged_def w1_def)
  have "length (conns w) < length (conns w1)" "conns w1 ! length (conns w) = (p, True)"
    "read_file (fresh_pragma w1) (files w1 p) = Inr ?db"
    using assms by (simp_all add: w1_def read_file_def)
  from rest_database[OF this] obtain w' where
    "analyze_rest (length (conns w)) w1 = (Inr (summary [] 0), w')"
    "files w' = files w1" "fresh_pragma w' = fresh_pragma w1"
    "conns w' = (conns w1)[length (conns w) := (p, False)]"
    by auto
  then show ?thesis
    by (simp add: analyze_database_schema_def body_unfold bind_io_def c w1_def)
qed

lemma analyze_not_database:
  assumes "files w p = Some (NotADatabase n)" and "2 \<le> n"
  shows "\<exists>w'. analyze_database_schema p w =
           (Inr (PyDict [(''error'', PyStr ''file is not a database'')]), w')
         \<and> files w' = files w \<and> fresh_pragma w' = fresh_pragma w
         \<and> conns w' = conns w @ [(p, True)]"
proof -
  define w1 where "w1 = w\<lparr>conns := conns w @ [(p, True)], log := log w @ [(Connect p, True)]\<rparr>"
  have c: "sqlite3_connect p w = (Inr (length (conns w)), w1)"
    using assms by (simp add: sqlite3_connect_def logged_def w1_def)
  have "length (conns w) < length (conns w1)" "conns w1 ! length (conns w) = (p, True)"
    "read_file (fresh_pragma w1) (files w1 p)
       = Inl (PyException ''DatabaseError'' ''file is not a database'')"
    using assms by (simp_all add: w1_def read_file_def)
  from rest_not_database[OF this] obtain w' where
    "analyze_rest (length (conns w)) w1 =
       (Inl (PyException ''DatabaseError'' ''file is not a database''), w')"
    "files w' = files w1" "fresh_pragma w' = fresh_pragma w1" "conns w' = conns w1"
    by blast
  then show ?thesis
    by (simp add: analyze_database_schema_def body_unfold bind_io_def c w1_def)
qed

lemma analyze_unopenable:
  assumes "files w p = Some Unopenable"
  shows "\<exists>w'. analyze_database_schema p w =
           (Inr (PyDict [(''error'', PyStr ''unable to open database file'')]), w')
         \<and> files w' = files w \<and> fresh_pragma w' = fresh_pragma w \<and> conns w' = conns w"
  using assms
  by (simp add: analyze_database_schema_def body_unfold bind_io_def sqlite3_connect_def logged_def)

subsection \<open>The history of calls\<close>










subsection \<open>The shape of the result\<close>

lemma body_result_shape:
  assumes "analyze_body p w = (Inr r, w')"
  shows "\<exists>fks n. r = summary fks n"
  using assms
  by (auto simp: analyze_body_def summary_def bind_io_def lift_io_def split: prod.splits sum.splits)

lemma analyze_cases:
  "(\<exists>e w'. analyze_body p w = (Inl e, w') \<and>
       analyze_database_schema p w = (Inr (PyDict [(''error'', PyStr (exc_str e))]), w'))
   \<or> (\<exists>fks n w'. analyze_body p w = (Inr (summary fks n), w') \<and>
       analyze_database_schema p w = (Inr (summary fks n), w'))"
proof (cases "analyze_body p w")
  case (Pair r w')
  show ?thesis
  proof (cases r)
    case (Inl e)
    with Pair show ?thesis by (simp add: analyze_database_schema_def)
  next
    case (Inr v)
    with Pair body_result_shape[of p w v w'] show ?thesis
      by (auto simp: analyze_database_schema_def)
  qed
qed

subsection \<open>The loop, read off the database\<close>

lemma pure_collect_all_succeed:
  assumes "list_all (\<lambda>t. succeeds (db_foreign_key_list db (fst t))) ts"
  shows "pure_collect db ts acc =
           Inr (acc @ concat (map (\<lambda>t. map (foreign_key_ref (fst t))
                                      (returned (db_foreign_key_list db (fst t)))) ts))"
  using assms
proof (induction ts arbitrary: acc)
  case Nil
  show ?case by simp
next
  case (Cons t ts)
  from Cons.prems obtain rows where "db_foreign_key_list db (fst t) = Returns rows"
    by (cases "db_foreign_key_list db (fst t)") simp_all
  with Cons show ?case by simp
qed

lemma pure_collect_no_rows:
  assumes "list_all (\<lambda>t. db_foreign_key_list db (fst t) = Returns []) ts"
  shows "pure_collect db ts acc = Inr acc"
  using assms by (induction ts arbitrary: acc) simp_all

lemma pure_collect_first_failure:
  assumes "list_all (\<lambda>t. succeeds (db_foreign_key_list db (fst t))) pre"
    and "db_foreign_key_list db (fst t) = Execute_raises e"
  shows "pure_collect db (pre @ t # post) acc = Inl e"
  using assms
proof (induction pre arbitrary: acc)
  case Nil
  then show ?case by simp
next
  case (Cons u pre)
  from Cons.prems(1) obtain rows where "db_foreign_key_list db (fst u) = Returns rows"
    by (cases "db_foreign_key_list db (fst u)") simp_all
  with Cons show ?case by simp
qed

lemma pure_collect_tables:
  assumes "pure_collect db ts acc = Inr fks" and "d \<in> set fks"
  shows "d \<in> set acc \<or> (\<exists>t \<in> set ts. \<exists>r. d = foreign_key_ref (fst t) r)"
  using assms
proof (induction ts arbitrary: acc)
  case Nil
  then show ?case by simp
next
  case (Cons t ts)
  from Cons.prems(1) obtain rows where
    a: "answer_result (db_foreign_key_list db (fst t)) = Inr rows"
    and c: "pure_collect db ts (acc @ map (foreign_key_ref (fst t)) rows) = Inr fks"
    by (auto split: sum.splits)
  from Cons.IH[OF c Cons.prems(2)] show ?case by auto
qed

lemma tables_without_rows:
  assumes "files w p = Some (Database db)"
    and "list_all (\<lambda>t. db_foreign_key_list db (fst t) = Returns []) (db_tables db)"
  shows "fst (analyze_database_schema p w) =
           Inr (PyDict [(''foreign_keys'', PyList []),
                        (''table_count'', PyInt (int (length (db_tables db)))),
                        (''found_fk_count'', PyInt 0)])"
proof -
  from analyze_database[OF assms(1)] obtain w' where
    "analyze_database_schema p w =
       (Inr (case pure_collect db (db_tables db) [] of
               Inl e \<Rightarrow> PyDict [(''error'', PyStr (exc_str e))]
             | Inr fks \<Rightarrow> summary fks (length (db_tables db))), w')"
    by blast
  then show ?thesis
    by (simp add: pure_collect_no_rows[OF assms(2)] summary_def)
qed

subsection \<open>The runs on the example databases\<close>

lemma shop_run:
  "fst (analyze_database_schema ''database.db'' shop_world) =
     Inr (PyDict [(''foreign_keys'',
                   PyList [PyDict [(''table'', PyStr ''orders''),
                                   (''from_column'', PyStr ''customer_id''),
                                   (''to_table'', PyStr ''customers''),
                                   (''to_column'', PyStr ''id'')]]),
                  (''table_count'', PyInt 2), (''found_fk_count'', PyInt 1)])"
  using analyze_database[of shop_world "''database.db''" shop_db]
  by (auto simp: shop_world_def boot_def shop_db_def summary_def foreign_key_ref_def)

lemma notes_run:
  "fst (analyze_database_schema ''database.db'' notes_world) =
     Inr (PyDict [(''foreign_keys'', PyList []), (''table_count'', PyInt 2),
                  (''found_fk_count'', PyInt 0)])"
  using analyze_database[of notes_world "''database.db''" notes_db]
  by (auto simp: notes_world_def boot_def notes_db_def summary_def)

lemma spaced_run:
  "fst (analyze_database_schema ''database.db'' spaced_world) =
     Inr (PyDict [(''error'', PyStr ''near \"table\": syntax error'')])"
  using analyze_database[of spaced_world "''database.db''" spaced_db]
  by (auto simp: spaced_world_def boot_def spaced_db_def)

lemma paren_run:
  "fst (analyze_database_schema ''database.db'' paren_world) =
     Inr (PyDict [(''error'', PyStr ''near \"b\": syntax error'')])"
  using analyze_database[of paren_world "''database.db''" paren_db]
  by (auto simp: paren_world_def boot_def paren_db_def)

lemma text_file_run:
  "analyze_database_schema ''database.db'' text_file_world =
     (Inr (PyDict [(''error'', PyStr ''file is not a database'')]),
      text_file_world\<lparr>conns := [(''database.db'', True)], cursors := [(0, Inr [])],
        log := [(Connect ''database.db'', True), (Cursor, True), (Execute catalog_query, False)]\<rparr>)"
  by (simp add: analyze_database_schema_def analyze_body_def bind_io_def text_file_world_def
      boot_def sqlite3_connect_def conn_cursor_def cursor_execute_def read_file_def logged_def
      is_open_def)


section \<open>The properties\<close>




text \<open>
  Claim C2 fails on the error path. On a file that is not a database \<open>connect\<close>
  returns, the catalog query raises, and the function returns the error value while
  the connection it opened is still open: \<open>close\<close> is not among the calls made.
\<close>

theorem C2_error_path_leaves_connection_open:
  "fst (analyze_database_schema ''database.db'' text_file_world) =
     Inr (PyDict [(''error'', PyStr ''file is not a database'')])
   \<and> conns (snd (analyze_database_schema ''database.db'' text_file_world)) =
       [(''database.db'', True)]
   \<and> log (snd (analyze_database_schema ''database.db'' text_file_world)) =
       [(Connect ''database.db'', True), (Cursor, True), (Execute catalog_query, False)]"
  by (simp add: text_file_run)


text \<open>
  Claim C4. The value returned has either exactly the keys \<open>foreign_keys\<close>,
  \<open>table_count\<close>, \<open>found_fk_count\<close> or exactly the key \<open>error\<close>.
\<close>

theorem C4_one_of_two_shapes:
  "\<exists>v. fst (analyze_database_schema p w) = Inr v
      \<and> (dict_keys v = [''foreign_keys'', ''table_count'', ''found_fk_count'']
         \<or> dict_keys v = [''error''])"
  using analyze_cases[of p w] by (auto simp: summary_def)

text \<open>
  Claim C5. In a result without the key \<open>error\<close>, \<open>found_fk_count\<close> is the length of
  \<open>foreign_keys\<close>.
\<close>

theorem C5_found_fk_count_is_length:
  assumes "fst (analyze_database_schema p w) = Inr v" and "dict_get v ''error'' = None"
  shows "\<exists>fks. dict_get v ''foreign_keys'' = Some (PyList fks)
           \<and> dict_get v ''found_fk_count'' = Some (PyInt (int (length fks)))"
  using analyze_cases[of p w] assms by (auto simp: summary_def)

theorem C5_found_fk_count_is_length_witness:
  "fst (analyze_database_schema ''database.db'' shop_world) =
     Inr (PyDict [(''foreign_keys'',
                   PyList [PyDict [(''table'', PyStr ''orders''),
                                   (''from_column'', PyStr ''customer_id''),
                                   (''to_table'', PyStr ''customers''),
                                   (''to_column'', PyStr ''id'')]]),
                  (''table_count'', PyInt 2), (''found_fk_count'', PyInt 1)])
   \<and> (\<exists>fks. dict_get (PyDict [(''foreign_keys'',
                   PyList [PyDict [(''table'', PyStr ''orders''),
                                   (''from_column'', PyStr ''customer_id''),
                                   (''to_table'', PyStr ''customers''),
                                   (''to_column'', PyStr ''id'')]]),
                  (''table_count'', PyInt 2), (''found_fk_count'', PyInt 1)]) ''foreign_keys''
               = Some (PyList fks)
          \<and> dict_get (PyDict [(''foreign_keys'',
                   PyList [PyDict [(''table'', PyStr ''orders''),
                                   (''from_column'', PyStr ''customer_id''),
                                   (''to_table'', PyStr ''customers''),
                                   (''to_column'', PyStr ''id'')]]),
                  (''table_count'', PyInt 2), (''found_fk_count'', PyInt 1)]) ''found_fk_count''
               = Some (PyInt (int (length fks))))"
  using C5_found_fk_count_is_length[OF shop_run] shop_run by simp

text \<open>
  Claim C6. When the pragma succeeds for every table of the catalog, \<open>foreign_keys\<close>
  is the concatenation, in catalog order, of the rows each pragma returned, in the
  order it returned them, each row turned into one \<open>ForeignKeyRef\<close> of its table.
\<close>

theorem C6_foreign_keys_in_catalog_and_row_order:
  assumes "files w p = Some (Database db)"
    and "list_all (\<lambda>t. succeeds (db_foreign_key_list db (fst t))) (db_tables db)"
  shows "\<exists>v. fst (analyze_database_schema p w) = Inr v
           \<and> dict_get v ''foreign_keys'' =
               Some (PyList (concat (map (\<lambda>t. map (foreign_key_ref (fst t))
                                                  (returned (db_foreign_key_list db (fst t))))
                                         (db_tables db))))"
proof -
  from analyze_database[OF assms(1)] obtain w' where
    "analyze_database_schema p w =
       (Inr (case pure_collect db (db_tables db) [] of
               Inl e \<Rightarrow> PyDict [(''error'', PyStr (exc_str e))]
             | Inr fks \<Rightarrow> summary fks (length (db_tables db))), w')"
    by blast
  then show ?thesis
    by (simp add: pure_collect_all_succeed[OF assms(2)] summary_def)
qed

theorem C6_foreign_keys_in_catalog_and_row_order_witness:
  "files shop_world ''database.db'' = Some (Database shop_db)
   \<and> list_all (\<lambda>t. succeeds (db_foreign_key_list shop_db (fst t))) (db_tables shop_db)
   \<and> (\<exists>v. fst (analyze_database_schema ''database.db'' shop_world) = Inr v
          \<and> dict_get v ''foreign_keys'' =
              Some (PyList [PyDict [(''table'', PyStr ''orders''),
                                    (''from_column'', PyStr ''customer_id''),
                                    (''to_table'', PyStr ''customers''),
                                    (''to_column'', PyStr ''id'')]]))"
proof -
  have a: "files shop_world ''database.db'' = Some (Database shop_db)"
    by (simp add: shop_world_def boot_def)
  have b: "list_all (\<lambda>t. succeeds (db_foreign_key_list shop_db (fst t))) (db_tables shop_db)"
    by (simp add: shop_db_def)
  have c: "concat (map (\<lambda>t. map (foreign_key_ref (fst t))
                            (returned (db_foreign_key_list shop_db (fst t))))
                       (db_tables shop_db))
           = [PyDict [(''table'', PyStr ''orders''), (''from_column'', PyStr ''customer_id''),
                      (''to_table'', PyStr ''customers''), (''to_column'', PyStr ''id'')]]"
    by (simp add: shop_db_def foreign_key_ref_def)
  from C6_foreign_keys_in_catalog_and_row_order[OF a b] a b show ?thesis
    by (simp only: c)
qed

text \<open>
  Claim C7 fails on a database whose only table is named \<open>my table\<close> and has no
  foreign key. The name goes into the statement unquoted, SQLite rejects
  \<open>PRAGMA foreign_key_list(my table)\<close>, and the result is the error value instead
  of the success value with \<open>table_count = 1\<close>.
\<close>

theorem C7_table_name_with_space_gives_error:
  "files spaced_world ''database.db'' = Some (Database spaced_db)
   \<and> db_tables spaced_db = [(''my table'', ''CREATE TABLE \"my table\" (x)'')]
   \<and> returned (db_foreign_key_list spaced_db ''my table'') = []
   \<and> fst (analyze_database_schema ''database.db'' spaced_world) =
        Inr (PyDict [(''error'', PyStr ''near \"table\": syntax error'')])"
  using spaced_run by (simp add: spaced_world_def boot_def spaced_db_def)

subsection \<open>Two runs\<close>

lemma analyze_depends_on_file:
  assumes "files w1 p = files w2 p"
  shows "fst (analyze_database_schema p w1) = fst (analyze_database_schema p w2)"
proof (cases "files w1 p")
  case None
  with assms have "files w2 p = None" by simp
  from analyze_missing[OF None] analyze_missing[OF this] show ?thesis by auto
next
  case (Some entry)
  show ?thesis
  proof (cases entry)
    case Unopenable
    with Some assms have "files w1 p = Some Unopenable" "files w2 p = Some Unopenable"
      by simp_all
    from analyze_unopenable[OF this(1)] analyze_unopenable[OF this(2)] show ?thesis by auto
  next
    case (NotADatabase n)
    with Some assms have f: "files w1 p = Some (NotADatabase n)" "files w2 p = Some (NotADatabase n)"
      by simp_all
    show ?thesis
    proof (cases "n \<le> 1")
      case True
      from analyze_short_file[OF f(1) True] analyze_short_file[OF f(2) True] show ?thesis
        by auto
    next
      case False
      then have "2 \<le> n" by simp
      from analyze_not_database[OF f(1) this] analyze_not_database[OF f(2) this] show ?thesis
        by auto
    qed
  next
    case (Database db)
    with Some assms have "files w1 p = Some (Database db)" "files w2 p = Some (Database db)"
      by simp_all
    from analyze_database[OF this(1)] analyze_database[OF this(2)] show ?thesis by auto
  qed
qed

lemma analyze_again:
  "fst (analyze_database_schema p (snd (analyze_database_schema p w)))
     = fst (analyze_database_schema p w)"
proof (cases "files w p")
  case None
  from analyze_missing[OF None] obtain w' where
    r: "analyze_database_schema p w = (Inr (summary [] 0), w')"
    and f: "files w' p = Some (Database \<lparr>db_tables = [], db_foreign_key_list = fresh_pragma w\<rparr>)"
    by auto
  from analyze_database[OF f] have "fst (analyze_database_schema p w') = Inr (summary [] 0)"
    by auto
  with r show ?thesis by simp
next
  case (Some entry)
  have "files (snd (analyze_database_schema p w)) p = files w p"
  proof (cases entry)
    case Unopenable
    with Some analyze_unopenable[of w p] show ?thesis by auto
  next
    case (NotADatabase n)
    with Some analyze_not_database[of w p n] analyze_short_file[of w p n] show ?thesis
      by (cases "n \<le> 1") auto
  next
    case (Database db)
    with Some analyze_database[of w p db] show ?thesis by auto
  qed
  then show ?thesis by (rule analyze_depends_on_file)
qed

lemma main_output:
  "fst (main json_dumps w) =
     map_sum id (\<lambda>result. json_dumps result @ [CHR 0x0A])
       (fst (analyze_database_schema ''database.db'' w))"
  by (simp add: main_def split: prod.splits sum.splits)

lemma main_state:
  "snd (main json_dumps w) = snd (analyze_database_schema ''database.db'' w)"
  by (simp add: main_def split: prod.splits sum.splits)

text \<open>
  Claim C8. What the script prints is a function of what \<open>database.db\<close> refers to
  and of nothing else in the state of the machine; and the run leaves the machine in
  a state where a second run prints the same text again.
\<close>

theorem C8_same_database_same_output:
  "fst (main json_dumps (snd (main json_dumps w))) = fst (main json_dumps w)
   \<and> (files w1 ''database.db'' = files w2 ''database.db'' \<longrightarrow>
        fst (main json_dumps w1) = fst (main json_dumps w2))"
proof (intro conjI impI)
  show "fst (main json_dumps (snd (main json_dumps w))) = fst (main json_dumps w)"
    by (simp only: main_output main_state analyze_again)
next
  assume "files w1 ''database.db'' = files w2 ''database.db''"
  then have "fst (analyze_database_schema ''database.db'' w1)
               = fst (analyze_database_schema ''database.db'' w2)"
    by (rule analyze_depends_on_file)
  then show "fst (main json_dumps w1) = fst (main json_dumps w2)"
    by (simp only: main_output)
qed

text \<open>
  The shop database, on a fresh machine and on one where another connection is open.
\<close>

theorem C8_same_database_same_output_witness:
  "files shop_world ''database.db'' = files (shop_world\<lparr>conns := [(''other.db'', True)]\<rparr>) ''database.db''
   \<and> (\<forall>json_dumps.
        fst (main json_dumps (snd (main json_dumps shop_world))) = fst (main json_dumps shop_world)
        \<and> fst (main json_dumps shop_world)
            = fst (main json_dumps (shop_world\<lparr>conns := [(''other.db'', True)]\<rparr>)))"
proof (intro conjI allI)
  show a: "files shop_world ''database.db''
             = files (shop_world\<lparr>conns := [(''other.db'', True)]\<rparr>) ''database.db''"
    by simp
  fix json_dumps :: "py_value \<Rightarrow> string"
  note t = C8_same_database_same_output[of json_dumps shop_world shop_world
        "shop_world\<lparr>conns := [(''other.db'', True)]\<rparr>"]
  from t show "fst (main json_dumps (snd (main json_dumps shop_world)))
                 = fst (main json_dumps shop_world)"
    by (rule conjunct1)
  from t a show "fst (main json_dumps shop_world)
                   = fst (main json_dumps (shop_world\<lparr>conns := [(''other.db'', True)]\<rparr>))"
    by blast
qed

text \<open>
  Claim C9. When the catalog of a database lists a table whose name, put into the
  pragma as it is, makes a statement SQLite rejects, and the pragma succeeds for the
  tables before it, the result is the error value carrying the message of that
  rejection, although the file is a database.
\<close>

theorem C9_rejected_table_name_gives_error:
  assumes "files w p = Some (Database db)"
    and "db_tables db = pre @ t # post"
    and "list_all (\<lambda>u. succeeds (db_foreign_key_list db (fst u))) pre"
    and "db_foreign_key_list db (fst t) = Execute_raises e"
  shows "fst (analyze_database_schema p w) = Inr (PyDict [(''error'', PyStr (exc_str e))])"
proof -
  from analyze_database[OF assms(1)] obtain w' where
    "analyze_database_schema p w =
       (Inr (case pure_collect db (db_tables db) [] of
               Inl e \<Rightarrow> PyDict [(''error'', PyStr (exc_str e))]
             | Inr fks \<Rightarrow> summary fks (length (db_tables db))), w')"
    by blast
  then show ?thesis
    by (simp add: assms(2) pure_collect_first_failure[OF assms(3,4)])
qed

text \<open>Such a database: its second table is named \<open>a)b\<close>.\<close>

theorem C9_rejected_table_name_gives_error_witness:
  "files paren_world ''database.db'' = Some (Database paren_db)
   \<and> db_tables paren_db =
       [(''plain'', ''CREATE TABLE plain (x)'')] @ (''a)b'', ''CREATE TABLE \"a)b\" (x)'') # []
   \<and> list_all (\<lambda>u. succeeds (db_foreign_key_list paren_db (fst u)))
        [(''plain'', ''CREATE TABLE plain (x)'')]
   \<and> db_foreign_key_list paren_db ''a)b''
       = Execute_raises (PyException ''OperationalError'' ''near \"b\": syntax error'')
   \<and> fst (analyze_database_schema ''database.db'' paren_world) =
        Inr (PyDict [(''error'', PyStr ''near \"b\": syntax error'')])"
proof -
  have a: "files paren_world ''database.db'' = Some (Database paren_db)"
    by (simp add: paren_world_def boot_def)
  have b: "db_tables paren_db =
       [(''plain'', ''CREATE TABLE plain (x)'')] @ (''a)b'', ''CREATE TABLE \"a)b\" (x)'') # []"
    by (simp add: paren_db_def)
  have c: "list_all (\<lambda>u. succeeds (db_foreign_key_list paren_db (fst u)))
        [(''plain'', ''CREATE TABLE plain (x)'')]"
    by (simp add: paren_db_def)
  have d: "db_foreign_key_list paren_db (fst (''a)b'', ''CREATE TABLE \"a)b\" (x)''))
       = Execute_raises (PyException ''OperationalError'' ''near \"b\": syntax error'')"
    by (simp add: paren_db_def)
  from C9_rejected_table_name_gives_error[OF a b c d] a b c d show ?thesis
    by simp
qed

text \<open>
  Claim C10. In a success result, the \<open>table\<close> field of every entry of
  \<open>foreign_keys\<close> is the name of a table in the catalog of the database the run read.
\<close>

theorem C10_entries_name_catalog_tables:
  assumes "fst (analyze_database_schema p w) = Inr v"
    and "dict_get v ''foreign_keys'' = Some (PyList fks)"
    and "d \<in> set fks"
  shows "\<exists>db t. files w p = Some (Database db) \<and> t \<in> set (db_tables db)
           \<and> dict_get d ''table'' = Some (PyStr (fst t))"
proof (cases "files w p")
  case None
  from analyze_missing[OF None] assms show ?thesis by (auto simp: summary_def)
next
  case (Some entry)
  show ?thesis
  proof (cases entry)
    case Unopenable
    with Some analyze_unopenable[of w p] assms show ?thesis by auto
  next
    case (NotADatabase n)
    with Some analyze_not_database[of w p n] analyze_short_file[of w p n] assms show ?thesis
      by (cases "n \<le> 1") (auto simp: summary_def)
  next
    case (Database db)
    with Some have f: "files w p = Some (Database db)" by simp
    from analyze_database[OF f] assms(1) have
      v: "v = (case pure_collect db (db_tables db) [] of
                 Inl e \<Rightarrow> PyDict [(''error'', PyStr (exc_str e))]
               | Inr fks \<Rightarrow> summary fks (length (db_tables db)))"
      by auto
    show ?thesis
    proof (cases "pure_collect db (db_tables db) []")
      case (Inl e)
      with v assms(2) show ?thesis by simp
    next
      case (Inr fks')
      with v assms(2) have "fks' = fks" by (simp add: summary_def)
      with Inr pure_collect_tables[of db "db_tables db" "[]" fks d] assms(3)
      obtain t r where "t \<in> set (db_tables db)" "d = foreign_key_ref (fst t) r"
        by auto
      with f show ?thesis
        by (intro exI[of _ db] exI[of _ t]) (simp add: foreign_key_ref_def)
    qed
  qed
qed

theorem C10_entries_name_catalog_tables_witness:
  "fst (analyze_database_schema ''database.db'' shop_world) =
     Inr (PyDict [(''foreign_keys'',
                   PyList [PyDict [(''table'', PyStr ''orders''),
                                   (''from_column'', PyStr ''customer_id''),
                                   (''to_table'', PyStr ''customers''),
                                   (''to_column'', PyStr ''id'')]]),
                  (''table_count'', PyInt 2), (''found_fk_count'', PyInt 1)])
   \<and> (\<exists>db t. files shop_world ''database.db'' = Some (Database db) \<and> t \<in> set (db_tables db)
         \<and> dict_get (PyDict [(''table'', PyStr ''orders''),
                              (''from_column'', PyStr ''customer_id''),
                              (''to_table'', PyStr ''customers''),
                              (''to_column'', PyStr ''id'')]) ''table'' = Some (PyStr (fst t)))"
proof -
  let ?d = "PyDict [(''table'', PyStr ''orders''), (''from_column'', PyStr ''customer_id''),
                    (''to_table'', PyStr ''customers''), (''to_column'', PyStr ''id'')]"
  have b: "dict_get (PyDict [(''foreign_keys'', PyList [?d]), (''table_count'', PyInt 2),
                             (''found_fk_count'', PyInt 1)]) ''foreign_keys''
             = Some (PyList [?d])"
    by simp
  have c: "?d \<in> set [?d]" by simp
  from C10_entries_name_catalog_tables[OF shop_run b c] shop_run show ?thesis
    by blast
qed

end
